theory Spec2Isabelle
  imports Main "HOL-Library.Word" "HOL-Library.Multiset"
begin

section \<open>Strings and form data\<close>

text \<open>
  A JavaScript string is a sequence of 16-bit code units. Program literals are written
  with \<open>lit\<close>, which widens each character of an Isabelle string to a code unit.
\<close>

type_synonym js_string = "16 word list"

definition lit :: "string \<Rightarrow> js_string" where
  "lit s = map (\<lambda>c. of_nat (of_char c)) s"

text \<open>
  \<open>String.prototype.trim\<close> removes leading and trailing WhiteSpace and LineTerminator
  code points (ECMA-262): TAB, LF, VT, FF, CR, SP, NBSP, the category Zs and
  U+2028, U+2029, U+FEFF. All of them lie in the basic plane, so each is one code unit.
\<close>

definition white_space :: "16 word list" where
  "white_space =
     [0x0009, 0x000A, 0x000B, 0x000C, 0x000D, 0x0020, 0x00A0, 0x1680,
      0x2000, 0x2001, 0x2002, 0x2003, 0x2004, 0x2005, 0x2006, 0x2007,
      0x2008, 0x2009, 0x200A, 0x2028, 0x2029, 0x202F, 0x205F, 0x3000, 0xFEFF]"

definition is_white_space :: "16 word \<Rightarrow> bool" where
  "is_white_space u = (u \<in> set white_space)"

definition trim :: "js_string \<Rightarrow> js_string" where
  "trim s = rev (dropWhile is_white_space (rev (dropWhile is_white_space s)))"

text \<open>
  An entry of a \<open>FormData\<close> is a string or a \<open>File\<close> (of which the name is kept here).
  The casts \<open>as string\<close> and \<open>as string[]\<close> of the actions exist for the type checker
  only: at run time an entry is what the form sent, and the actions hand it on as it is.
\<close>

datatype js_value = Str js_string | File js_string

text \<open>
  \<open>Boolean\<close> used as a filter predicate: the empty string is falsy, every other
  string and every object is truthy.
\<close>

fun Boolean :: "js_value \<Rightarrow> bool" where
  "Boolean (Str s) = (s \<noteq> [])"
| "Boolean (File f) = True"

text \<open>
  \<open>FormData\<close> is an ordered list of named entries; \<open>get\<close> answers the first entry of
  a name, or null (\<open>None\<close>) when there is none, and \<open>getAll\<close> answers all of them in
  order.
\<close>

type_synonym formData = "(js_string \<times> js_value) list"

definition formData_get :: "formData \<Rightarrow> js_string \<Rightarrow> js_value option" where
  "formData_get formData name = map_of formData name"

definition formData_getAll :: "formData \<Rightarrow> js_string \<Rightarrow> js_value list" where
  "formData_getAll formData name = map snd (filter (\<lambda>e. fst e = name) formData)"

section \<open>Data model\<close>

text \<open>
  Rows of the tables \<open>polls\<close> and \<open>votes\<close>; the prefix tells the table. A row holds
  the question and the options as the call carried them.
\<close>

record poll =
  p_id :: js_string
  p_user_id :: js_string
  p_question :: js_value
  p_options :: "js_value list"
  p_created_at :: nat

text \<open>
  The option index is a JavaScript number that the actions hand to the backend
  untouched; it is an integer here.
\<close>

record vote =
  v_poll_id :: js_string
  v_user_id :: "js_string option"
  v_option_index :: int

text \<open>The object \<open>{question, options}\<close> given to update, and \<open>{user_id, question, options}\<close> given to insert.\<close>

record poll_patch =
  question :: js_value
  options :: "js_value list"

record new_poll = poll_patch +
  user_id :: js_string

text \<open>Of the backend's user and error objects the actions read \<open>id\<close> and \<open>message\<close> only.\<close>

record user =
  u_id :: js_string

record backend_error =
  message :: js_string

text \<open>The arguments of login and of register.\<close>

record loginFormData =
  email :: js_string
  password :: js_string

record registerFormData = loginFormData +
  name :: js_string

section \<open>The auth and data backend\<close>

text \<open>
  The backend is an external service. The actions reach it through the calls below;
  \<open>Eq_id v\<close> is the filter \<open>.eq("id", v)\<close> and \<open>Eq_user_id v\<close> is \<open>.eq("user_id", v)\<close>.
  The flag of \<open>Polls_select\<close> is the \<open>ascending\<close> option of \<open>.order("created_at", ...)\<close>.
\<close>

datatype filter_eq = Eq_id js_string | Eq_user_id js_string

datatype call =
    Auth_getUser
  | Auth_signInWithPassword js_string js_string
  | Auth_signUp js_string js_string js_string
  | Auth_signOut
  | Polls_insert new_poll
  | Polls_select "filter_eq list" bool
  | Polls_select_single "filter_eq list"
  | Polls_update poll_patch "filter_eq list"
  | Polls_delete "filter_eq list"
  | Votes_insert vote

text \<open>
  The world of one request: what \<open>auth.getUser\<close> answers (\<open>session_user\<close>,
  \<open>session_error\<close>), the two tables, for each call the error the backend answers it with
  if it refuses it (\<open>fault\<close>: a policy, a constraint, an outage), the error of \<open>.single()\<close>
  on a result that is not one row, the identifiers the backend generates, the log of the
  calls made so far and the paths marked stale by \<open>revalidatePath\<close>.
\<close>

record world =
  session_user :: "user option"
  session_error :: "backend_error option"
  polls_table :: "poll list"
  votes_table :: "vote list"
  fault :: "call \<Rightarrow> backend_error option"
  not_single :: backend_error
  gen_id :: "nat \<Rightarrow> js_string"
  serial :: nat
  calls :: "call list"
  revalidated :: "js_string list"

definition record_call :: "call \<Rightarrow> world \<Rightarrow> world" where
  "record_call c w = w\<lparr>calls := calls w @ [c]\<rparr>"

definition revalidatePath :: "js_string \<Rightarrow> world \<Rightarrow> world" where
  "revalidatePath path w = w\<lparr>revalidated := revalidated w @ [path]\<rparr>"

text \<open>The pair \<open>(data.user, error)\<close> of \<open>supabase.auth.getUser()\<close>.\<close>

definition auth_getUser :: "world \<Rightarrow> (user option \<times> backend_error option) \<times> world" where
  "auth_getUser w = ((session_user w, session_error w), record_call Auth_getUser w)"

text \<open>
  Sign-in, sign-up and sign-out answer an error or none. What they do to the session
  lies inside the provider; the world of a request carries the session as given.
\<close>

definition auth_call :: "call \<Rightarrow> world \<Rightarrow> backend_error option \<times> world" where
  "auth_call c w = (fault w c, record_call c w)"

text \<open>
  The relational calls on an in-memory table. A refused call changes no table. An
  accepted insert appends the row (for a poll, with a generated \<open>id\<close> and the insertion
  count as \<open>created_at\<close>); update and delete act on exactly the rows that match every
  filter; select returns them, ordered by \<open>created_at\<close>.
\<close>

fun matches :: "poll \<Rightarrow> filter_eq \<Rightarrow> bool" where
  "matches p (Eq_id v) = (p_id p = v)"
| "matches p (Eq_user_id v) = (p_user_id p = v)"

definition selected :: "filter_eq list \<Rightarrow> poll \<Rightarrow> bool" where
  "selected fs p = list_all (matches p) fs"

definition order_created_at :: "bool \<Rightarrow> poll list \<Rightarrow> poll list" where
  "order_created_at ascending rows =
     (if ascending then sort_key p_created_at rows else rev (sort_key p_created_at rows))"

definition from_polls_insert :: "new_poll \<Rightarrow> world \<Rightarrow> backend_error option \<times> world" where
  "from_polls_insert r w =
     (case fault w (Polls_insert r) of
        Some e \<Rightarrow> (Some e, record_call (Polls_insert r) w)
      | None \<Rightarrow>
          (None, record_call (Polls_insert r)
             (w\<lparr>polls_table := polls_table w @
                  [\<lparr>p_id = gen_id w (serial w), p_user_id = user_id r,
                    p_question = question r, p_options = options r,
                    p_created_at = serial w\<rparr>],
                serial := Suc (serial w)\<rparr>)))"

definition from_polls_select ::
    "filter_eq list \<Rightarrow> bool \<Rightarrow> world \<Rightarrow> (poll list option \<times> backend_error option) \<times> world" where
  "from_polls_select fs ascending w =
     (case fault w (Polls_select fs ascending) of
        Some e \<Rightarrow> ((None, Some e), record_call (Polls_select fs ascending) w)
      | None \<Rightarrow>
          ((Some (order_created_at ascending (filter (selected fs) (polls_table w))), None),
           record_call (Polls_select fs ascending) w))"

definition from_polls_select_single ::
    "filter_eq list \<Rightarrow> world \<Rightarrow> (poll option \<times> backend_error option) \<times> world" where
  "from_polls_select_single fs w =
     (case fault w (Polls_select_single fs) of
        Some e \<Rightarrow> ((None, Some e), record_call (Polls_select_single fs) w)
      | None \<Rightarrow>
          (case filter (selected fs) (polls_table w) of
             [p] \<Rightarrow> ((Some p, None), record_call (Polls_select_single fs) w)
           | _ \<Rightarrow> ((None, Some (not_single w)), record_call (Polls_select_single fs) w)))"

definition patch :: "poll_patch \<Rightarrow> poll \<Rightarrow> poll" where
  "patch v p = p\<lparr>p_question := question v, p_options := options v\<rparr>"

definition from_polls_update :: "poll_patch \<Rightarrow> filter_eq list \<Rightarrow> world \<Rightarrow> backend_error option \<times> world" where
  "from_polls_update v fs w =
     (case fault w (Polls_update v fs) of
        Some e \<Rightarrow> (Some e, record_call (Polls_update v fs) w)
      | None \<Rightarrow>
          (None, record_call (Polls_update v fs)
             (w\<lparr>polls_table := map (\<lambda>p. if selected fs p then patch v p else p) (polls_table w)\<rparr>)))"

definition from_polls_delete :: "filter_eq list \<Rightarrow> world \<Rightarrow> backend_error option \<times> world" where
  "from_polls_delete fs w =
     (case fault w (Polls_delete fs) of
        Some e \<Rightarrow> (Some e, record_call (Polls_delete fs) w)
      | None \<Rightarrow>
          (None, record_call (Polls_delete fs)
             (w\<lparr>polls_table := filter (\<lambda>p. \<not> selected fs p) (polls_table w)\<rparr>)))"

definition from_votes_insert :: "vote \<Rightarrow> world \<Rightarrow> backend_error option \<times> world" where
  "from_votes_insert r w =
     (case fault w (Votes_insert r) of
        Some e \<Rightarrow> (Some e, record_call (Votes_insert r) w)
      | None \<Rightarrow>
          (None, record_call (Votes_insert r) (w\<lparr>votes_table := votes_table w @ [r]\<rparr>)))"

section \<open>The server actions\<close>

text \<open>
  An action returns a result object or throws. Every result object has the field
  \<open>error\<close>, a string or null; the listing adds \<open>polls\<close> and the lookup adds \<open>poll\<close>.
\<close>

datatype js_exception = TypeError

datatype 'a outcome = Returns 'a | Throws js_exception

record action_result =
  error :: "js_string option"

record polls_result = action_result +
  polls :: "poll list"

record poll_result = action_result +
  poll :: "poll option"

text \<open>
  The file \<open>poll-actions.ts\<close> is present in two revisions. The later one defines
  \<open>sanitizeInput\<close>; its actions carry the source's names. Of the earlier revision,
  \<open>createPoll\<close> and \<open>getUserPolls\<close> differ and are modelled with the suffix \<open>_rev1\<close>;
  \<open>getPollById\<close>, \<open>submitVote\<close>, \<open>deletePoll\<close> and \<open>updatePoll\<close> are the same in both.
\<close>

subsection \<open>Earlier revision\<close>

text \<open>
  The test \<open>!question\<close> holds for null and for the empty string, the two values
  that are not truthy; the first two branches of the case below are its two ways of
  holding. A \<open>File\<close> passes the test and the filter, and goes into the call.
\<close>

definition createPoll_rev1 :: "formData \<Rightarrow> world \<Rightarrow> action_result outcome \<times> world" where
  "createPoll_rev1 formData w =
     (let question = formData_get formData (lit ''question'');
          opts = filter Boolean (formData_getAll formData (lit ''options''))
      in case question of
           None \<Rightarrow>
             (Returns \<lparr>error = Some (lit ''Please provide a question and at least two options.'')\<rparr>, w)
         | Some q \<Rightarrow>
           if \<not> Boolean q \<or> length opts < 2
           then (Returns \<lparr>error = Some (lit ''Please provide a question and at least two options.'')\<rparr>, w)
           else
           (case auth_getUser w of
              ((usr, userError), w1) \<Rightarrow>
                (case userError of
                   Some e \<Rightarrow> (Returns \<lparr>error = Some (message e)\<rparr>, w1)
                 | None \<Rightarrow>
                     (case usr of
                        None \<Rightarrow>
                          (Returns \<lparr>error = Some (lit ''You must be logged in to create a poll.'')\<rparr>, w1)
                      | Some u \<Rightarrow>
                          (case from_polls_insert \<lparr>question = q, options = opts, user_id = u_id u\<rparr> w1 of
                             (Some e, w2) \<Rightarrow> (Returns \<lparr>error = Some (message e)\<rparr>, w2)
                           | (None, w2) \<Rightarrow>
                               (Returns \<lparr>error = None\<rparr>, revalidatePath (lit ''/polls'') w2))))))"

definition getUserPolls_rev1 :: "world \<Rightarrow> polls_result outcome \<times> world" where
  "getUserPolls_rev1 w =
     (case auth_getUser w of
        ((usr, _), w1) \<Rightarrow>
          (case usr of
             None \<Rightarrow> (Returns \<lparr>error = Some (lit ''Not authenticated''), polls = []\<rparr>, w1)
           | Some u \<Rightarrow>
               (case from_polls_select [Eq_user_id (u_id u)] False w1 of
                  ((_, Some e), w2) \<Rightarrow> (Returns \<lparr>error = Some (message e), polls = []\<rparr>, w2)
                | ((data, None), w2) \<Rightarrow>
                    (Returns \<lparr>error = None, polls = (case data of None \<Rightarrow> [] | Some rows \<Rightarrow> rows)\<rparr>, w2))))"

subsection \<open>Later revision\<close>

text \<open>
  The sanitizer is the library call \<open>purify.sanitize\<close>, a parameter here. It is handed
  whatever \<open>formData.get\<close> answered: a string, a \<open>File\<close>, or null when the field is
  absent; it answers a string.
\<close>

type_synonym purifier = "js_value option \<Rightarrow> js_string"

definition sanitizeInput :: "purifier \<Rightarrow> js_value option \<Rightarrow> js_string" where
  "sanitizeInput purify input = purify input"

text \<open>
  The filter \<open>(option) => option.trim() !== ""\<close> over the entries, in order. A
  \<open>File\<close> has no method \<open>trim\<close>: the call throws a TypeError at the first such entry.
\<close>

fun trim_filter :: "js_value list \<Rightarrow> js_exception + js_string list" where
  "trim_filter [] = Inr []"
| "trim_filter (File f # entries) = Inl TypeError"
| "trim_filter (Str s # entries) =
     (case trim_filter entries of
        Inl x \<Rightarrow> Inl x
      | Inr kept \<Rightarrow> Inr (if trim s \<noteq> [] then s # kept else kept))"

definition createPoll :: "purifier \<Rightarrow> formData \<Rightarrow> world \<Rightarrow> action_result outcome \<times> world" where
  "createPoll purify formData w =
     (let q = sanitizeInput purify (formData_get formData (lit ''question''))
      in case trim_filter (formData_getAll formData (lit ''options'')) of
           Inl x \<Rightarrow> (Throws x, w)
         | Inr kept \<Rightarrow>
           let opts = map (\<lambda>option. sanitizeInput purify (Some (Str option))) kept
           in
         if q = [] \<or> length opts < 2
         then (Returns \<lparr>error = Some (lit ''Please provide a question and at least two options.'')\<rparr>, w)
         else
           (case auth_getUser w of
              ((usr, userError), w1) \<Rightarrow>
                (case userError of
                   Some e \<Rightarrow> (Returns \<lparr>error = Some (message e)\<rparr>, w1)
                 | None \<Rightarrow>
                     (case usr of
                        None \<Rightarrow>
                          (Returns \<lparr>error = Some (lit ''You must be logged in to create a poll.'')\<rparr>, w1)
                      | Some u \<Rightarrow>
                          (case from_polls_insert
                                  \<lparr>question = Str q, options = map Str opts, user_id = u_id u\<rparr> w1 of
                             (Some e, w2) \<Rightarrow> (Returns \<lparr>error = Some (message e)\<rparr>, w2)
                           | (None, w2) \<Rightarrow>
                               (Returns \<lparr>error = None\<rparr>, revalidatePath (lit ''/polls'') w2))))))"

text \<open>
  The nested pattern \<open>data: {user: {id: user_id}}\<close> reads \<open>id\<close> of \<open>data.user\<close>;
  destructuring null throws a TypeError.
\<close>

definition getUserPolls :: "world \<Rightarrow> polls_result outcome \<times> world" where
  "getUserPolls w =
     (case auth_getUser w of
        ((usr, _), w1) \<Rightarrow>
          (case usr of
             None \<Rightarrow> (Throws TypeError, w1)
           | Some u \<Rightarrow>
               (case from_polls_select [Eq_user_id (u_id u)] False w1 of
                  ((_, Some e), w2) \<Rightarrow> (Returns \<lparr>error = Some (message e), polls = []\<rparr>, w2)
                | ((data, None), w2) \<Rightarrow>
                    (Returns \<lparr>error = None, polls = (case data of None \<Rightarrow> [] | Some rows \<Rightarrow> rows)\<rparr>, w2))))"

subsection \<open>Both revisions\<close>

definition getPollById :: "js_string \<Rightarrow> world \<Rightarrow> poll_result outcome \<times> world" where
  "getPollById ident w =
     (case from_polls_select_single [Eq_id ident] w of
        ((_, Some e), w1) \<Rightarrow> (Returns \<lparr>error = Some (message e), poll = None\<rparr>, w1)
      | ((data, None), w1) \<Rightarrow> (Returns \<lparr>error = None, poll = data\<rparr>, w1))"

definition submitVote :: "js_string \<Rightarrow> int \<Rightarrow> world \<Rightarrow> action_result outcome \<times> world" where
  "submitVote pollId optionIndex w =
     (case auth_getUser w of
        ((usr, _), w1) \<Rightarrow>
          (case from_votes_insert
                  \<lparr>v_poll_id = pollId, v_user_id = map_option u_id usr,
                   v_option_index = optionIndex\<rparr> w1 of
             (Some e, w2) \<Rightarrow> (Returns \<lparr>error = Some (message e)\<rparr>, w2)
           | (None, w2) \<Rightarrow> (Returns \<lparr>error = None\<rparr>, w2)))"

definition deletePoll :: "js_string \<Rightarrow> world \<Rightarrow> action_result outcome \<times> world" where
  "deletePoll ident w =
     (case from_polls_delete [Eq_id ident] w of
        (Some e, w1) \<Rightarrow> (Returns \<lparr>error = Some (message e)\<rparr>, w1)
      | (None, w1) \<Rightarrow> (Returns \<lparr>error = None\<rparr>, revalidatePath (lit ''/polls'') w1))"

definition updatePoll :: "js_string \<Rightarrow> formData \<Rightarrow> world \<Rightarrow> action_result outcome \<times> world" where
  "updatePoll pollId formData w =
     (let question = formData_get formData (lit ''question'');
          opts = filter Boolean (formData_getAll formData (lit ''options''))
      in case question of
           None \<Rightarrow>
             (Returns \<lparr>error = Some (lit ''Please provide a question and at least two options.'')\<rparr>, w)
         | Some q \<Rightarrow>
           if \<not> Boolean q \<or> length opts < 2
           then (Returns \<lparr>error = Some (lit ''Please provide a question and at least two options.'')\<rparr>, w)
           else
           (case auth_getUser w of
              ((usr, userError), w1) \<Rightarrow>
                (case userError of
                   Some e \<Rightarrow> (Returns \<lparr>error = Some (message e)\<rparr>, w1)
                 | None \<Rightarrow>
                     (case usr of
                        None \<Rightarrow>
                          (Returns \<lparr>error = Some (lit ''You must be logged in to update a poll.'')\<rparr>, w1)
                      | Some u \<Rightarrow>
                          (case from_polls_update \<lparr>question = q, options = opts\<rparr>
                                  [Eq_id pollId, Eq_user_id (u_id u)] w1 of
                             (Some e, w2) \<Rightarrow> (Returns \<lparr>error = Some (message e)\<rparr>, w2)
                           | (None, w2) \<Rightarrow> (Returns \<lparr>error = None\<rparr>, w2))))))"

subsection \<open>Auth actions\<close>

definition login :: "loginFormData \<Rightarrow> world \<Rightarrow> action_result outcome \<times> world" where
  "login data w =
     (case auth_call (Auth_signInWithPassword (email data) (password data)) w of
        (Some e, w1) \<Rightarrow> (Returns \<lparr>error = Some (message e)\<rparr>, w1)
      | (None, w1) \<Rightarrow> (Returns \<lparr>error = None\<rparr>, w1))"

definition register :: "registerFormData \<Rightarrow> world \<Rightarrow> action_result outcome \<times> world" where
  "register data w =
     (case auth_call (Auth_signUp (email data) (password data) (name data)) w of
        (Some e, w1) \<Rightarrow> (Returns \<lparr>error = Some (message e)\<rparr>, w1)
      | (None, w1) \<Rightarrow> (Returns \<lparr>error = None\<rparr>, w1))"

definition logout :: "world \<Rightarrow> action_result outcome \<times> world" where
  "logout w =
     (case auth_call Auth_signOut w of
        (Some e, w1) \<Rightarrow> (Returns \<lparr>error = Some (message e)\<rparr>, w1)
      | (None, w1) \<Rightarrow> (Returns \<lparr>error = None\<rparr>, w1))"

section \<open>Example inputs\<close>

text \<open>
  Concrete inputs for the examples below. \<open>drop_angle_brackets\<close> stands in for the
  sanitizer library there: it answers the empty string to null, drops \<open><\<close> and \<open>>\<close>
  from a string and answers the text of \<open>toString\<close> to a \<open>File\<close>.
\<close>

definition drop_angle_brackets :: purifier where
  "drop_angle_brackets input =
     (case input of
        None \<Rightarrow> []
      | Some (Str s) \<Rightarrow> filter (\<lambda>u. u \<noteq> 0x3C \<and> u \<noteq> 0x3E) s
      | Some (File f) \<Rightarrow> lit ''[object File]'')"

definition alice :: user where
  "alice = \<lparr>u_id = lit ''alice''\<rparr>"

definition lunch_poll :: poll where
  "lunch_poll =
     \<lparr>p_id = lit ''p1'', p_user_id = lit ''alice'', p_question = Str (lit ''Lunch?''),
      p_options = [Str (lit ''Pizza''), Str (lit ''Salad'')], p_created_at = 1\<rparr>"

definition tea_poll :: poll where
  "tea_poll =
     \<lparr>p_id = lit ''p2'', p_user_id = lit ''bob'', p_question = Str (lit ''Tea?''),
      p_options = [Str (lit ''Yes''), Str (lit ''No'')], p_created_at = 2\<rparr>"

definition signed_in_world :: world where
  "signed_in_world =
     \<lparr>session_user = Some alice, session_error = None,
      polls_table = [lunch_poll, tea_poll], votes_table = [],
      fault = (\<lambda>c. None), not_single = \<lparr>message = lit ''not a single row''\<rparr>,
      gen_id = (\<lambda>n. replicate n 0x70), serial = 3, calls = [], revalidated = []\<rparr>"

definition signed_out_world :: world where
  "signed_out_world =
     signed_in_world\<lparr>session_user := None,
       session_error := Some \<lparr>message = lit ''Auth session missing!''\<rparr>\<rparr>"

definition lunch_form :: formData where
  "lunch_form =
     [(lit ''question'', Str (lit ''Lunch?'')), (lit ''options'', Str (lit ''Pizza'')),
      (lit ''options'', Str []), (lit ''options'', Str (lit ''Salad''))]"

definition one_option_form :: formData where
  "one_option_form =
     [(lit ''question'', Str (lit ''Lunch?'')), (lit ''options'', Str (lit ''Pizza'')),
      (lit ''options'', Str [])]"

definition markup_form :: formData where
  "markup_form =
     [(lit ''question'', Str (lit ''<b>Lunch?</b>'')), (lit ''options'', Str (lit ''<i>Pizza</i>'')),
      (lit ''options'', Str [0x20, 0x20]), (lit ''options'', Str (lit ''Salad''))]"

definition white_space_form :: formData where
  "white_space_form =
     [(lit ''question'', Str (lit ''Lunch?'')), (lit ''options'', Str [0x20, 0x20]),
      (lit ''options'', Str [0x20])]"

text \<open>A form with an empty question and a file part among the options.\<close>

definition file_form :: formData where
  "file_form =
     [(lit ''question'', Str []), (lit ''options'', Str (lit ''Pizza'')),
      (lit ''options'', File (lit ''menu.pdf''))]"

definition no_session_world :: world where
  "no_session_world = signed_out_world\<lparr>session_error := None\<rparr>"

section \<open>Facts about strings and form data\<close>

lemma code_unit_of_char_inj:
  "(of_nat (of_char c) :: 16 word) = of_nat (of_char d) \<longleftrightarrow> c = d"
proof
  assume "(of_nat (of_char c) :: 16 word) = of_nat (of_char d)"
  then have "take_bit 16 (of_char c :: nat) = take_bit 16 (of_char d :: nat)"
    by (simp add: word_of_nat_eq_iff)
  moreover have "(of_char c :: nat) < 2 ^ 16" and "(of_char d :: nat) < 2 ^ 16"
    by (rule less_trans [OF nat_of_char_less_256], simp)+
  ultimately have "(of_char c :: nat) = of_char d"
    by (simp add: take_bit_nat_eq_self)
  then show "c = d" by simp
next
  assume "c = d"
  then show "(of_nat (of_char c) :: 16 word) = of_nat (of_char d)" by simp
qed

lemma lit_eq_iff [simp]: "lit a = lit b \<longleftrightarrow> a = b"
proof (induction a arbitrary: b)
  case Nil
  then show ?case by (auto simp: lit_def)
next
  case (Cons x xs)
  then show ?case by (cases b) (auto simp: lit_def code_unit_of_char_inj)
qed

lemma lit_Nil_iff [simp]: "lit s = [] \<longleftrightarrow> s = []"
  by (simp add: lit_def)

lemma trim_Nil [simp]: "trim [] = []"
  by (simp add: trim_def)

text \<open>
  The \<open>trim\<close> filter throws exactly when an entry is a \<open>File\<close>; on strings it is the
  list filter, and it keeps no more entries than \<open>Boolean\<close> does.
\<close>

lemma trim_filter_strings:
  "trim_filter (map Str ss) = Inr (filter (\<lambda>option. trim option \<noteq> []) ss)"
  by (induction ss) simp_all

lemma trim_filter_throws_iff:
  "trim_filter entries = Inl x \<longleftrightarrow> x = TypeError \<and> (\<exists>f. File f \<in> set entries)"
proof (induction entries rule: trim_filter.induct)
  case 1
  then show ?case by simp
next
  case (2 f entries)
  then show ?case by auto
next
  case (3 s entries)
  then show ?case by (auto split: sum.splits)
qed

lemma length_trim_filter_le:
  "trim_filter entries = Inr kept \<Longrightarrow> length kept \<le> length (filter Boolean entries)"
proof (induction entries arbitrary: kept rule: trim_filter.induct)
  case 1
  then show ?case by simp
next
  case (2 f entries)
  then show ?case by simp
next
  case (3 s entries)
  then show ?case by (cases "s = []") (auto split: sum.splits if_splits)
qed

lemma one_option_form_get:
  "formData_get one_option_form (lit ''question'') = Some (Str (lit ''Lunch?''))"
  by (simp add: formData_get_def one_option_form_def)

lemma one_option_form_getAll:
  "formData_getAll one_option_form (lit ''options'') = [Str (lit ''Pizza''), Str []]"
  by (simp add: formData_getAll_def one_option_form_def)

lemma one_option_form_trimmed:
  "trim_filter (formData_getAll one_option_form (lit ''options'')) = Inr [lit ''Pizza'']"
  by (simp add: one_option_form_getAll) (simp add: trim_def lit_def is_white_space_def white_space_def)

lemma lunch_form_get: "formData_get lunch_form (lit ''question'') = Some (Str (lit ''Lunch?''))"
  by (simp add: formData_get_def lunch_form_def)

lemma lunch_form_getAll:
  "formData_getAll lunch_form (lit ''options'') = [Str (lit ''Pizza''), Str [], Str (lit ''Salad'')]"
  by (simp add: formData_getAll_def lunch_form_def)

lemma lunch_form_trimmed:
  "trim_filter (formData_getAll lunch_form (lit ''options'')) = Inr [lit ''Pizza'', lit ''Salad'']"
  by (simp add: lunch_form_getAll) (simp add: trim_def lit_def is_white_space_def white_space_def)

lemma filter_Boolean_lunch:
  "filter Boolean (formData_getAll lunch_form (lit ''options'')) =
     [Str (lit ''Pizza''), Str (lit ''Salad'')]"
  by (simp add: lunch_form_getAll)

lemma drop_angle_brackets_Lunch:
  "drop_angle_brackets (Some (Str (lit ''Lunch?''))) = lit ''Lunch?''"
  by (simp add: drop_angle_brackets_def lit_def)

lemma map_unselected: "filter P xs = [] \<Longrightarrow> map (\<lambda>x. if P x then f x else x) xs = xs"
  by (induction xs) (auto split: if_splits)

lemma session_signed_out:
  "session_user signed_out_world = None"
  "session_error signed_out_world = Some \<lparr>message = lit ''Auth session missing!''\<rparr>"
  "calls signed_out_world = []"
  by (simp_all add: signed_out_world_def signed_in_world_def)

lemma signed_in_fields:
  "session_user signed_in_world = Some alice"
  "session_error signed_in_world = None"
  "fault signed_in_world c = None"
  "polls_table signed_in_world = [lunch_poll, tea_poll]"
  "calls signed_in_world = []"
  "serial signed_in_world = 3"
  by (simp_all add: signed_in_world_def)

lemma markup_form_get:
  "formData_get markup_form (lit ''question'') = Some (Str (lit ''<b>Lunch?</b>''))"
  by (simp add: formData_get_def markup_form_def)

lemma markup_form_getAll:
  "formData_getAll markup_form (lit ''options'') =
     [Str (lit ''<i>Pizza</i>''), Str [0x20, 0x20], Str (lit ''Salad'')]"
  by (simp add: formData_getAll_def markup_form_def)

lemma markup_form_trimmed:
  "trim_filter (formData_getAll markup_form (lit ''options'')) =
     Inr [lit ''<i>Pizza</i>'', lit ''Salad'']"
  by (simp add: markup_form_getAll) (simp add: trim_def lit_def is_white_space_def white_space_def)

lemma markup_form_Boolean:
  "filter Boolean (formData_getAll markup_form (lit ''options'')) =
     [Str (lit ''<i>Pizza</i>''), Str [0x20, 0x20], Str (lit ''Salad'')]"
  by (simp add: markup_form_getAll)

lemma drop_angle_brackets_markup:
  "drop_angle_brackets (Some (Str (lit ''<b>Lunch?</b>''))) = lit ''bLunch?/b''"
  "drop_angle_brackets (Some (Str (lit ''<i>Pizza</i>''))) = lit ''iPizza/i''"
  "drop_angle_brackets (Some (Str (lit ''Salad''))) = lit ''Salad''"
  by (simp_all add: drop_angle_brackets_def lit_def)

lemma white_space_form_get:
  "formData_get white_space_form (lit ''question'') = Some (Str (lit ''Lunch?''))"
  by (simp add: formData_get_def white_space_form_def)

lemma white_space_form_getAll:
  "formData_getAll white_space_form (lit ''options'') = [Str [0x20, 0x20], Str [0x20]]"
  by (simp add: formData_getAll_def white_space_form_def)

lemma file_form_get: "formData_get file_form (lit ''question'') = Some (Str [])"
  by (simp add: formData_get_def file_form_def)

lemma file_form_getAll:
  "formData_getAll file_form (lit ''options'') = [Str (lit ''Pizza''), File (lit ''menu.pdf'')]"
  by (simp add: formData_getAll_def file_form_def)

lemma file_form_throws:
  "trim_filter (formData_getAll file_form (lit ''options'')) = Inl TypeError"
  by (simp add: file_form_getAll)

section \<open>Validation\<close>

text \<open>
  Claim C1. A call of createPoll or updatePoll whose form has the empty string as question,
  or fewer than two options that are not the empty string, returns the validation message
  and leaves the world as it was: no insert, no update, no call of the backend at all.
  For the later createPoll this holds when every option entry is a string, the forms its
  cast \<open>as string[]\<close> declares; when an entry is a \<open>File\<close> it throws a TypeError
  instead, and the world is as it was all the same.
  The earlier createPoll and updatePoll drop exactly the empty options (\<open>Boolean\<close>).
  The later createPoll drops the options of white space as well (\<open>trim\<close>), so it
  rejects in that case too, and it checks the sanitized question, which is empty for an
  empty question when the sanitizer maps the empty string to itself.
\<close>

theorem validation_error_without_write:
  "(formData_get formData (lit ''question'') = Some (Str []) \<or>
      length (filter Boolean (formData_getAll formData (lit ''options''))) < 2
    \<longrightarrow>
      createPoll_rev1 formData w =
        (Returns \<lparr>error = Some (lit ''Please provide a question and at least two options.'')\<rparr>, w) \<and>
      updatePoll pollId formData w =
        (Returns \<lparr>error = Some (lit ''Please provide a question and at least two options.'')\<rparr>, w)) \<and>
   (trim_filter (formData_getAll formData (lit ''options'')) = Inr kept \<and>
      ((formData_get formData (lit ''question'') = Some (Str []) \<and> purify (Some (Str [])) = []) \<or>
       length (filter Boolean (formData_getAll formData (lit ''options''))) < 2 \<or>
       length kept < 2)
    \<longrightarrow>
      createPoll purify formData w =
        (Returns \<lparr>error = Some (lit ''Please provide a question and at least two options.'')\<rparr>, w)) \<and>
   (trim_filter (formData_getAll formData (lit ''options'')) = Inl x
    \<longrightarrow>
      createPoll purify formData w = (Throws x, w))"
proof -
  have few: "length kept < 2"
    if "trim_filter (formData_getAll formData (lit ''options'')) = Inr kept"
      and "length (filter Boolean (formData_getAll formData (lit ''options''))) < 2"
    using that length_trim_filter_le [of "formData_getAll formData (lit ''options'')" kept] by simp
  show ?thesis
    by (auto simp: createPoll_rev1_def updatePoll_def createPoll_def sanitizeInput_def Let_def
          split: option.splits dest: few)
qed

theorem validation_error_without_write_witness:
  "length (filter Boolean (formData_getAll one_option_form (lit ''options''))) < 2 \<and>
   trim_filter (formData_getAll one_option_form (lit ''options'')) = Inr [lit ''Pizza''] \<and>
   trim_filter (formData_getAll file_form (lit ''options'')) = Inl TypeError \<and>
   createPoll_rev1 one_option_form signed_in_world =
     (Returns \<lparr>error = Some (lit ''Please provide a question and at least two options.'')\<rparr>,
      signed_in_world) \<and>
   updatePoll (lit ''p1'') one_option_form signed_in_world =
     (Returns \<lparr>error = Some (lit ''Please provide a question and at least two options.'')\<rparr>,
      signed_in_world) \<and>
   createPoll drop_angle_brackets one_option_form signed_in_world =
     (Returns \<lparr>error = Some (lit ''Please provide a question and at least two options.'')\<rparr>,
      signed_in_world) \<and>
   createPoll_rev1 file_form signed_in_world =
     (Returns \<lparr>error = Some (lit ''Please provide a question and at least two options.'')\<rparr>,
      signed_in_world) \<and>
   createPoll drop_angle_brackets file_form signed_in_world = (Throws TypeError, signed_in_world)"
proof -
  have a: "length (filter Boolean (formData_getAll one_option_form (lit ''options''))) < 2"
    by (simp add: one_option_form_getAll)
  show ?thesis
    using a one_option_form_trimmed file_form_throws file_form_get
      validation_error_without_write
        [of one_option_form signed_in_world "lit ''p1''" "[lit ''Pizza'']" drop_angle_brackets]
      validation_error_without_write
        [of file_form signed_in_world "lit ''p1''" _ drop_angle_brackets TypeError]
    by simp
qed

text \<open>
  The claim as first stated, with the validation message for every call, fails on the
  later createPoll: on a form with an empty question and a file part among the options
  it throws where the message was to be returned.
\<close>

theorem createPoll_throws_on_file_option:
  "formData_get file_form (lit ''question'') = Some (Str []) \<and>
   fst (createPoll drop_angle_brackets file_form signed_in_world) = Throws TypeError \<and>
   fst (createPoll drop_angle_brackets file_form signed_in_world) \<noteq>
     Returns \<lparr>error = Some (lit ''Please provide a question and at least two options.'')\<rparr>"
  by (simp add: file_form_get createPoll_def Let_def file_form_throws)

text \<open>
  Options that consist of white space are not empty strings: updatePoll and the earlier
  createPoll keep them, pass the check and write; the later createPoll drops them.
\<close>

lemma white_space_options_differ:
  "fst (updatePoll (lit ''p1'') white_space_form signed_in_world) = Returns \<lparr>error = None\<rparr> \<and>
   polls_table (snd (updatePoll (lit ''p1'') white_space_form signed_in_world)) =
     [lunch_poll\<lparr>p_options := [Str [0x20, 0x20], Str [0x20]]\<rparr>, tea_poll] \<and>
   fst (createPoll_rev1 white_space_form signed_in_world) = Returns \<lparr>error = None\<rparr> \<and>
   createPoll drop_angle_brackets white_space_form signed_in_world =
     (Returns \<lparr>error = Some (lit ''Please provide a question and at least two options.'')\<rparr>,
      signed_in_world)"
proof -
  have kept: "filter Boolean (formData_getAll white_space_form (lit ''options'')) =
      [Str [0x20, 0x20], Str [0x20]]"
    by (simp add: white_space_form_getAll)
  have dropped: "trim_filter (formData_getAll white_space_form (lit ''options'')) = Inr []"
    by (simp add: white_space_form_getAll trim_def is_white_space_def white_space_def)
  have ids: "p_id lunch_poll = lit ''p1''" "p_user_id lunch_poll = lit ''alice''"
    "p_id tea_poll = lit ''p2''" "u_id alice = lit ''alice''"
    "p_question lunch_poll = Str (lit ''Lunch?'')"
    by (simp_all add: lunch_poll_def tea_poll_def alice_def)
  show ?thesis
    by (simp add: updatePoll_def createPoll_rev1_def createPoll_def Let_def
          white_space_form_get kept dropped auth_getUser_def from_polls_update_def
          from_polls_insert_def record_call_def revalidatePath_def selected_def patch_def
          signed_in_fields ids)
qed

text \<open>
  Claim C10. The actions validate before they ask who the caller is. When the form fails
  the action's own check (question null or empty, or after sanitizing empty in the later
  createPoll; fewer than two options left by the filter), the log of backend calls is as
  before: \<open>auth.getUser\<close> was not called. The action returns the validation message,
  which differs from both "must be logged in" messages; the later createPoll does so when
  every option entry is a string, and throws a TypeError, still before any backend call,
  when an entry is a \<open>File\<close>. This holds for every world, so also for a caller without
  a session.
\<close>

theorem validation_precedes_authentication:
  "(formData_get formData (lit ''question'') = None \<or>
    formData_get formData (lit ''question'') = Some (Str []) \<or>
    length (filter Boolean (formData_getAll formData (lit ''options''))) < 2
    \<longrightarrow>
      fst (createPoll_rev1 formData w) =
        Returns \<lparr>error = Some (lit ''Please provide a question and at least two options.'')\<rparr> \<and>
      calls (snd (createPoll_rev1 formData w)) = calls w \<and>
      fst (updatePoll pollId formData w) =
        Returns \<lparr>error = Some (lit ''Please provide a question and at least two options.'')\<rparr> \<and>
      calls (snd (updatePoll pollId formData w)) = calls w) \<and>
   (trim_filter (formData_getAll formData (lit ''options'')) = Inr kept \<and>
    (sanitizeInput purify (formData_get formData (lit ''question'')) = [] \<or> length kept < 2)
    \<longrightarrow>
      fst (createPoll purify formData w) =
        Returns \<lparr>error = Some (lit ''Please provide a question and at least two options.'')\<rparr> \<and>
      calls (snd (createPoll purify formData w)) = calls w) \<and>
   (trim_filter (formData_getAll formData (lit ''options'')) = Inl x
    \<longrightarrow>
      fst (createPoll purify formData w) = Throws x \<and>
      calls (snd (createPoll purify formData w)) = calls w) \<and>
   lit ''Please provide a question and at least two options.'' \<noteq>
     lit ''You must be logged in to create a poll.'' \<and>
   lit ''Please provide a question and at least two options.'' \<noteq>
     lit ''You must be logged in to update a poll.''"
  by (auto simp: createPoll_rev1_def updatePoll_def createPoll_def Let_def
           split: option.splits)

theorem validation_precedes_authentication_witness:
  "session_user signed_out_world = None \<and>
   length (filter Boolean (formData_getAll one_option_form (lit ''options''))) < 2 \<and>
   trim_filter (formData_getAll one_option_form (lit ''options'')) = Inr [lit ''Pizza''] \<and>
   trim_filter (formData_getAll file_form (lit ''options'')) = Inl TypeError \<and>
   fst (createPoll_rev1 one_option_form signed_out_world) =
     Returns \<lparr>error = Some (lit ''Please provide a question and at least two options.'')\<rparr> \<and>
   calls (snd (createPoll_rev1 one_option_form signed_out_world)) = [] \<and>
   fst (updatePoll (lit ''p1'') one_option_form signed_out_world) =
     Returns \<lparr>error = Some (lit ''Please provide a question and at least two options.'')\<rparr> \<and>
   calls (snd (updatePoll (lit ''p1'') one_option_form signed_out_world)) = [] \<and>
   fst (createPoll drop_angle_brackets one_option_form signed_out_world) =
     Returns \<lparr>error = Some (lit ''Please provide a question and at least two options.'')\<rparr> \<and>
   calls (snd (createPoll drop_angle_brackets one_option_form signed_out_world)) = [] \<and>
   fst (createPoll drop_angle_brackets file_form signed_out_world) = Throws TypeError \<and>
   calls (snd (createPoll drop_angle_brackets file_form signed_out_world)) = []"
proof -
  have a: "length (filter Boolean (formData_getAll one_option_form (lit ''options''))) < 2"
    by (simp add: one_option_form_getAll)
  show ?thesis
    using a one_option_form_trimmed file_form_throws session_signed_out
      validation_precedes_authentication
        [of one_option_form signed_out_world "lit ''p1''" "[lit ''Pizza'']" drop_angle_brackets]
      validation_precedes_authentication
        [of file_form signed_out_world "lit ''p1''" _ drop_angle_brackets TypeError]
    by simp
qed

text \<open>
  The claim as first stated fails on the later createPoll: a caller without a session who
  submits an empty question and a file part among the options receives no validation
  message, the action throws.
\<close>

theorem createPoll_throws_before_validation_message:
  "sanitizeInput drop_angle_brackets (formData_get file_form (lit ''question'')) = [] \<and>
   createPoll drop_angle_brackets file_form signed_out_world = (Throws TypeError, signed_out_world)"
  by (simp add: file_form_get createPoll_def Let_def file_form_throws sanitizeInput_def
        drop_angle_brackets_def)

section \<open>Authentication\<close>

text \<open>
  Claim C5. With a form that passes validation and no user in the session, createPoll
  and updatePoll return an authentication error: the message of the backend's error when
  it reports one, else the fixed message of the action. The world afterwards differs from
  the one before only in the logged \<open>auth.getUser\<close> call, so nothing was written.
\<close>

theorem unauthenticated_rejected_without_write:
  "session_user w = None \<longrightarrow>
   (formData_get formData (lit ''question'') = Some q \<and> Boolean q \<and>
    2 \<le> length (filter Boolean (formData_getAll formData (lit ''options'')))
    \<longrightarrow>
      createPoll_rev1 formData w =
        (Returns \<lparr>error = Some (case session_error w of
                                   Some e \<Rightarrow> message e
                                 | None \<Rightarrow> lit ''You must be logged in to create a poll.'')\<rparr>,
         w\<lparr>calls := calls w @ [Auth_getUser]\<rparr>) \<and>
      updatePoll pollId formData w =
        (Returns \<lparr>error = Some (case session_error w of
                                   Some e \<Rightarrow> message e
                                 | None \<Rightarrow> lit ''You must be logged in to update a poll.'')\<rparr>,
         w\<lparr>calls := calls w @ [Auth_getUser]\<rparr>)) \<and>
   (trim_filter (formData_getAll formData (lit ''options'')) = Inr kept \<and>
    sanitizeInput purify (formData_get formData (lit ''question'')) \<noteq> [] \<and>
    2 \<le> length kept
    \<longrightarrow>
      createPoll purify formData w =
        (Returns \<lparr>error = Some (case session_error w of
                                   Some e \<Rightarrow> message e
                                 | None \<Rightarrow> lit ''You must be logged in to create a poll.'')\<rparr>,
         w\<lparr>calls := calls w @ [Auth_getUser]\<rparr>))"
  by (auto simp: createPoll_rev1_def updatePoll_def createPoll_def Let_def auth_getUser_def
           record_call_def split: option.splits)

theorem unauthenticated_rejected_without_write_witness:
  "session_user signed_out_world = None \<and>
   formData_get lunch_form (lit ''question'') = Some (Str (lit ''Lunch?'')) \<and>
   Boolean (Str (lit ''Lunch?'')) \<and>
   2 \<le> length (filter Boolean (formData_getAll lunch_form (lit ''options''))) \<and>
   trim_filter (formData_getAll lunch_form (lit ''options'')) = Inr [lit ''Pizza'', lit ''Salad''] \<and>
   sanitizeInput drop_angle_brackets (formData_get lunch_form (lit ''question'')) \<noteq> [] \<and>
   createPoll_rev1 lunch_form signed_out_world =
     (Returns \<lparr>error = Some (lit ''Auth session missing!'')\<rparr>,
      signed_out_world\<lparr>calls := [Auth_getUser]\<rparr>) \<and>
   updatePoll (lit ''p1'') lunch_form signed_out_world =
     (Returns \<lparr>error = Some (lit ''Auth session missing!'')\<rparr>,
      signed_out_world\<lparr>calls := [Auth_getUser]\<rparr>) \<and>
   createPoll drop_angle_brackets lunch_form signed_out_world =
     (Returns \<lparr>error = Some (lit ''Auth session missing!'')\<rparr>,
      signed_out_world\<lparr>calls := [Auth_getUser]\<rparr>) \<and>
   createPoll drop_angle_brackets lunch_form (signed_out_world\<lparr>session_error := None\<rparr>) =
     (Returns \<lparr>error = Some (lit ''You must be logged in to create a poll.'')\<rparr>,
      signed_out_world\<lparr>session_error := None, calls := [Auth_getUser]\<rparr>) \<and>
   updatePoll (lit ''p1'') lunch_form (signed_out_world\<lparr>session_error := None\<rparr>) =
     (Returns \<lparr>error = Some (lit ''You must be logged in to update a poll.'')\<rparr>,
      signed_out_world\<lparr>session_error := None, calls := [Auth_getUser]\<rparr>)"
proof -
  have a: "2 \<le> length (filter Boolean (formData_getAll lunch_form (lit ''options'')))"
    by (simp add: filter_Boolean_lunch)
  have c: "sanitizeInput drop_angle_brackets (formData_get lunch_form (lit ''question'')) \<noteq> []"
    by (simp add: sanitizeInput_def lunch_form_get drop_angle_brackets_Lunch)
  have d: "Boolean (Str (lit ''Lunch?''))"
    by simp
  show ?thesis
    using a c d lunch_form_get lunch_form_trimmed session_signed_out
      unauthenticated_rejected_without_write
        [of signed_out_world lunch_form "Str (lit ''Lunch?'')" "lit ''p1''"
          "[lit ''Pizza'', lit ''Salad'']" drop_angle_brackets]
      unauthenticated_rejected_without_write
        [of "signed_out_world\<lparr>session_error := None\<rparr>" lunch_form "Str (lit ''Lunch?'')"
          "lit ''p1''" "[lit ''Pizza'', lit ''Salad'']" drop_angle_brackets]
    by simp
qed

section \<open>Deleting\<close>

text \<open>
  Claim C3. deletePoll issues one call, a delete on \<open>polls\<close> filtered by \<open>id\<close> alone;
  it never asks for the user. If the backend refuses the call, its message is returned and
  nothing else happens. Otherwise every row with that id is gone, whoever owns it and
  whoever calls, \<open>/polls\<close> is marked stale and the error is null.
\<close>

theorem deletePoll_unconditional:
  "deletePoll ident w =
     (case fault w (Polls_delete [Eq_id ident]) of
        Some e \<Rightarrow>
          (Returns \<lparr>error = Some (message e)\<rparr>,
           w\<lparr>calls := calls w @ [Polls_delete [Eq_id ident]]\<rparr>)
      | None \<Rightarrow>
          (Returns \<lparr>error = None\<rparr>,
           w\<lparr>polls_table := filter (\<lambda>p. p_id p \<noteq> ident) (polls_table w),
             calls := calls w @ [Polls_delete [Eq_id ident]],
             revalidated := revalidated w @ [lit ''/polls'']\<rparr>))"
  by (simp add: deletePoll_def from_polls_delete_def record_call_def revalidatePath_def
        selected_def split: option.splits)

section \<open>Voting\<close>

text \<open>
  Claim C7. submitVote asks for the user, ignores any authentication error and issues
  one insert into \<open>votes\<close> with the given poll id and option index and the user's id,
  or null when there is no user. The error returned is the backend's answer to that
  insert and nothing else; an accepted insert adds exactly that row. The table \<open>polls\<close>
  plays no part, so neither the poll's existence nor its number of options is checked.
\<close>

theorem submitVote_anonymous_unchecked:
  "submitVote pollId optionIndex w =
     (case fault w (Votes_insert \<lparr>v_poll_id = pollId, v_user_id = map_option u_id (session_user w),
                                 v_option_index = optionIndex\<rparr>) of
        Some e \<Rightarrow>
          (Returns \<lparr>error = Some (message e)\<rparr>,
           w\<lparr>calls := calls w @
                [Auth_getUser,
                 Votes_insert \<lparr>v_poll_id = pollId, v_user_id = map_option u_id (session_user w),
                               v_option_index = optionIndex\<rparr>]\<rparr>)
      | None \<Rightarrow>
          (Returns \<lparr>error = None\<rparr>,
           w\<lparr>votes_table := votes_table w @
                [\<lparr>v_poll_id = pollId, v_user_id = map_option u_id (session_user w),
                  v_option_index = optionIndex\<rparr>],
             calls := calls w @
                [Auth_getUser,
                 Votes_insert \<lparr>v_poll_id = pollId, v_user_id = map_option u_id (session_user w),
                               v_option_index = optionIndex\<rparr>]\<rparr>)) \<and>
   fst (submitVote pollId optionIndex (w\<lparr>polls_table := t\<rparr>)) =
     fst (submitVote pollId optionIndex w)"
  by (simp add: submitVote_def from_votes_insert_def auth_getUser_def record_call_def
        split: option.splits)


section \<open>Updating\<close>

text \<open>
  Claim C6. updatePoll filters its update by the poll's id and by the caller's id as
  owner. When the form is valid, the caller is signed in, the backend accepts the call
  and no row has both that id and that owner, the world changes in the call log only
  (every row of \<open>polls\<close> is as before) and the error is null. The error is null for
  every content of the table, so the result does not tell a poll that is missing from
  one owned by somebody else or from one that was updated.
\<close>

theorem updatePoll_not_owner_silent:
  assumes "formData_get formData (lit ''question'') = Some q" and "Boolean q"
    and "2 \<le> length (filter Boolean (formData_getAll formData (lit ''options'')))"
    and "session_user w = Some u" and "session_error w = None"
    and "fault w (Polls_update
           \<lparr>question = q, options = filter Boolean (formData_getAll formData (lit ''options''))\<rparr>
           [Eq_id pollId, Eq_user_id (u_id u)]) = None"
    and "filter (\<lambda>p. p_id p = pollId \<and> p_user_id p = u_id u) (polls_table w) = []"
  shows "updatePoll pollId formData w =
           (Returns \<lparr>error = None\<rparr>,
            w\<lparr>calls := calls w @
                 [Auth_getUser,
                  Polls_update
                    \<lparr>question = q,
                     options = filter Boolean (formData_getAll formData (lit ''options''))\<rparr>
                    [Eq_id pollId, Eq_user_id (u_id u)]]\<rparr>) \<and>
         fst (updatePoll pollId formData (w\<lparr>polls_table := t\<rparr>)) = Returns \<lparr>error = None\<rparr>"
proof -
  have unchanged:
    "map (\<lambda>p. if selected [Eq_id pollId, Eq_user_id (u_id u)] p then patch v p else p)
       (polls_table w) = polls_table w" for v
    using assms(7) by (simp add: selected_def map_unselected)
  have first: "updatePoll pollId formData w =
           (Returns \<lparr>error = None\<rparr>,
            w\<lparr>calls := calls w @
                 [Auth_getUser,
                  Polls_update
                    \<lparr>question = q,
                     options = filter Boolean (formData_getAll formData (lit ''options''))\<rparr>
                    [Eq_id pollId, Eq_user_id (u_id u)]]\<rparr>)"
    using assms(1-6)
    by (simp add: updatePoll_def Let_def auth_getUser_def from_polls_update_def record_call_def
          unchanged)
  have second: "fst (updatePoll pollId formData (w\<lparr>polls_table := t\<rparr>)) = Returns \<lparr>error = None\<rparr>"
    using assms(1-6)
    by (simp add: updatePoll_def Let_def auth_getUser_def from_polls_update_def record_call_def)
  from first second show ?thesis ..
qed

theorem updatePoll_not_owner_silent_witness:
  "formData_get lunch_form (lit ''question'') = Some (Str (lit ''Lunch?'')) \<and>
   Boolean (Str (lit ''Lunch?'')) \<and>
   2 \<le> length (filter Boolean (formData_getAll lunch_form (lit ''options''))) \<and>
   session_user signed_in_world = Some alice \<and> session_error signed_in_world = None \<and>
   filter (\<lambda>p. p_id p = lit ''p2'' \<and> p_user_id p = u_id alice) (polls_table signed_in_world) = [] \<and>
   p_user_id tea_poll = lit ''bob'' \<and>
   updatePoll (lit ''p2'') lunch_form signed_in_world =
     (Returns \<lparr>error = None\<rparr>,
      signed_in_world\<lparr>calls :=
        [Auth_getUser,
         Polls_update
           \<lparr>question = Str (lit ''Lunch?''),
            options = [Str (lit ''Pizza''), Str (lit ''Salad'')]\<rparr>
           [Eq_id (lit ''p2''), Eq_user_id (lit ''alice'')]]\<rparr>) \<and>
   fst (updatePoll (lit ''p2'') lunch_form (signed_in_world\<lparr>polls_table := []\<rparr>)) =
     Returns \<lparr>error = None\<rparr>"
proof -
  have a: "Boolean (Str (lit ''Lunch?''))"
    by simp
  have b: "2 \<le> length (filter Boolean (formData_getAll lunch_form (lit ''options'')))"
    by (simp add: filter_Boolean_lunch)
  have c: "filter (\<lambda>p. p_id p = lit ''p2'' \<and> p_user_id p = u_id alice)
             (polls_table signed_in_world) = []"
    by (simp add: signed_in_fields lunch_poll_def tea_poll_def alice_def)
  have d: "fault signed_in_world
             (Polls_update
               \<lparr>question = Str (lit ''Lunch?''),
                options = filter Boolean (formData_getAll lunch_form (lit ''options''))\<rparr>
               [Eq_id (lit ''p2''), Eq_user_id (u_id alice)]) = None"
    by (simp add: signed_in_fields)
  have e: "p_user_id tea_poll = lit ''bob''"
    by (simp add: tea_poll_def)
  show ?thesis
    using a b c e
      updatePoll_not_owner_silent
        [OF lunch_form_get a b signed_in_fields(1) signed_in_fields(2) d c, of "[]"]
    by (simp add: lunch_form_get signed_in_fields filter_Boolean_lunch alice_def)
qed

section \<open>Sanitizing\<close>

text \<open>
  Claim C8. In the later revision createPoll persists sanitized text and updatePoll does
  not. For a signed-in caller, a form that passes the check and a backend that accepts
  the call, the row that createPoll adds holds the sanitized question and the sanitized
  image of every option that is not white space; updatePoll writes to the caller's rows
  of that id the question as submitted and the non-empty options as submitted. The
  sanitizer is no argument of updatePoll.
\<close>

theorem create_sanitizes_update_does_not:
  assumes "session_user w = Some u" and "session_error w = None"
  shows
    "(trim_filter (formData_getAll formData (lit ''options'')) = Inr kept \<and>
      sanitizeInput purify (formData_get formData (lit ''question'')) \<noteq> [] \<and>
      2 \<le> length kept \<and>
      fault w (Polls_insert
        \<lparr>question = Str (sanitizeInput purify (formData_get formData (lit ''question''))),
         options = map Str (map (\<lambda>option. sanitizeInput purify (Some (Str option))) kept),
         user_id = u_id u\<rparr>) = None
      \<longrightarrow>
        polls_table (snd (createPoll purify formData w)) =
          polls_table w @
            [\<lparr>p_id = gen_id w (serial w), p_user_id = u_id u,
              p_question = Str (sanitizeInput purify (formData_get formData (lit ''question''))),
              p_options = map Str (map (\<lambda>option. sanitizeInput purify (Some (Str option))) kept),
              p_created_at = serial w\<rparr>]) \<and>
     (formData_get formData (lit ''question'') = Some q \<and> Boolean q \<and>
      2 \<le> length (filter Boolean (formData_getAll formData (lit ''options''))) \<and>
      fault w (Polls_update
        \<lparr>question = q, options = filter Boolean (formData_getAll formData (lit ''options''))\<rparr>
        [Eq_id pollId, Eq_user_id (u_id u)]) = None
      \<longrightarrow>
        polls_table (snd (updatePoll pollId formData w)) =
          map (\<lambda>p. if p_id p = pollId \<and> p_user_id p = u_id u
                    then p\<lparr>p_question := q,
                           p_options := filter Boolean (formData_getAll formData (lit ''options''))\<rparr>
                    else p)
            (polls_table w))"
  using assms
  by (auto simp: createPoll_def updatePoll_def Let_def auth_getUser_def from_polls_insert_def
        from_polls_update_def record_call_def revalidatePath_def selected_def patch_def)

theorem create_sanitizes_update_does_not_witness:
  "session_user signed_in_world = Some alice \<and> session_error signed_in_world = None \<and>
   trim_filter (formData_getAll markup_form (lit ''options'')) =
     Inr [lit ''<i>Pizza</i>'', lit ''Salad''] \<and>
   sanitizeInput drop_angle_brackets (formData_get markup_form (lit ''question'')) \<noteq> [] \<and>
   formData_get markup_form (lit ''question'') = Some (Str (lit ''<b>Lunch?</b>'')) \<and>
   Boolean (Str (lit ''<b>Lunch?</b>'')) \<and>
   2 \<le> length (filter Boolean (formData_getAll markup_form (lit ''options''))) \<and>
   polls_table (snd (createPoll drop_angle_brackets markup_form signed_in_world)) =
     [lunch_poll, tea_poll,
      \<lparr>p_id = [0x70, 0x70, 0x70], p_user_id = lit ''alice'',
       p_question = Str (lit ''bLunch?/b''),
       p_options = [Str (lit ''iPizza/i''), Str (lit ''Salad'')], p_created_at = 3\<rparr>] \<and>
   polls_table (snd (updatePoll (lit ''p1'') markup_form signed_in_world)) =
     [lunch_poll\<lparr>p_question := Str (lit ''<b>Lunch?</b>''),
                 p_options := [Str (lit ''<i>Pizza</i>''), Str [0x20, 0x20], Str (lit ''Salad'')]\<rparr>,
      tea_poll]"
proof -
  have a: "sanitizeInput drop_angle_brackets (formData_get markup_form (lit ''question'')) \<noteq> []"
    by (simp add: sanitizeInput_def markup_form_get drop_angle_brackets_markup)
  have c: "Boolean (Str (lit ''<b>Lunch?</b>''))"
    by simp
  have d: "2 \<le> length (filter Boolean (formData_getAll markup_form (lit ''options'')))"
    by (simp add: markup_form_Boolean)
  have ids: "p_id lunch_poll = lit ''p1''" "p_user_id lunch_poll = lit ''alice''"
    "p_id tea_poll = lit ''p2''" "u_id alice = lit ''alice''"
    by (simp_all add: lunch_poll_def tea_poll_def alice_def)
  have three: "replicate 3 (0x70 :: 16 word) = [0x70, 0x70, 0x70]"
    by (simp add: numeral_3_eq_3)
  show ?thesis
    using a c d markup_form_get markup_form_trimmed
      create_sanitizes_update_does_not
        [OF signed_in_fields(1) signed_in_fields(2),
          of markup_form "[lit ''<i>Pizza</i>'', lit ''Salad'']" drop_angle_brackets
            "Str (lit ''<b>Lunch?</b>'')" "lit ''p1''"]
    by (simp add: signed_in_fields markup_form_Boolean sanitizeInput_def
          drop_angle_brackets_markup ids three signed_in_world_def)
qed

section \<open>Listing\<close>

text \<open>
  For a signed-in caller both revisions of getUserPolls agree: they return the rows of
  \<open>polls\<close> owned by the caller, latest first, or the backend's message with no rows.
\<close>

lemma sorted_desc_order_created_at:
  "sorted (rev (map p_created_at (order_created_at False rows)))"
  by (simp add: order_created_at_def rev_map [symmetric])

lemma mset_order_created_at: "mset (order_created_at ascending rows) = mset rows"
  by (simp add: order_created_at_def)

lemma selected_user_id: "selected [Eq_user_id v] = (\<lambda>p. p_user_id p = v)"
  by (rule ext) (simp add: selected_def)

lemma getUserPolls_signed_in:
  assumes "session_user w = Some u"
  shows "getUserPolls w = getUserPolls_rev1 w"
    and "fault w (Polls_select [Eq_user_id (u_id u)] False) = None \<Longrightarrow>
         fst (getUserPolls w) =
           Returns \<lparr>error = None,
                    polls = order_created_at False
                              (filter (\<lambda>p. p_user_id p = u_id u) (polls_table w))\<rparr>"
    and "fault w (Polls_select [Eq_user_id (u_id u)] False) = Some e \<Longrightarrow>
         fst (getUserPolls w) = Returns \<lparr>error = Some (message e), polls = []\<rparr>"
  using assms
  by (simp_all add: getUserPolls_def getUserPolls_rev1_def auth_getUser_def from_polls_select_def
        record_call_def selected_user_id)


text \<open>
  Claim C4. getUserPolls is to return an error state with an empty sequence when nobody
  is signed in. The earlier revision does. The later revision destructures \<open>id\<close> out of
  the null user: in a world whose session is missing it throws a TypeError after the
  \<open>auth.getUser\<close> call and returns nothing.
\<close>

theorem getUserPolls_signed_out_no_error_state:
  "getUserPolls signed_out_world = (Throws TypeError, signed_out_world\<lparr>calls := [Auth_getUser]\<rparr>) \<and>
   getUserPolls_rev1 signed_out_world =
     (Returns \<lparr>error = Some (lit ''Not authenticated''), polls = []\<rparr>,
      signed_out_world\<lparr>calls := [Auth_getUser]\<rparr>)"
  by (simp add: getUserPolls_def getUserPolls_rev1_def auth_getUser_def record_call_def
        signed_out_world_def signed_in_world_def)

section \<open>Result shape\<close>

text \<open>
  The earlier createPoll, updatePoll, deletePoll, submitVote, getPollById, the earlier
  getUserPolls and the auth actions return a result object in every world. The later
  createPoll does when no option entry is a \<open>File\<close>, and the later getUserPolls does
  when the session has a user.
\<close>

lemma poll_actions_return:
  "\<exists>r. fst (createPoll_rev1 formData w) = Returns r"
  "trim_filter (formData_getAll formData (lit ''options'')) = Inr kept \<Longrightarrow>
     \<exists>r. fst (createPoll purify formData w) = Returns r"
  "\<exists>r. fst (updatePoll pollId formData w) = Returns r"
  "\<exists>r. fst (deletePoll pollId w) = Returns r"
  "\<exists>r. fst (submitVote pollId optionIndex w) = Returns r"
  by (auto simp: createPoll_rev1_def createPoll_def updatePoll_def deletePoll_def submitVote_def
        Let_def auth_getUser_def from_polls_insert_def from_polls_update_def
        from_polls_delete_def from_votes_insert_def split: option.splits)

lemma query_actions_return:
  "\<exists>r. fst (getUserPolls_rev1 w) = Returns r"
  "\<exists>r. fst (getPollById pollId w) = Returns r"
  "session_user w \<noteq> None \<Longrightarrow> \<exists>r. fst (getUserPolls w) = Returns r"
  by (auto simp: getUserPolls_rev1_def getUserPolls_def getPollById_def auth_getUser_def
        from_polls_select_def from_polls_select_single_def split: option.splits list.splits)

lemma auth_actions_return:
  "\<exists>r. fst (login credentials w) = Returns r"
  "\<exists>r. fst (register registration w) = Returns r"
  "\<exists>r. fst (logout w) = Returns r"
  by (auto simp: login_def register_def logout_def auth_call_def split: option.splits)

text \<open>
  Claim C2. Every exposed action is to return an object with an \<open>error\<close> field and
  never to throw on a missing user. The later getUserPolls throws a TypeError when the
  session has no user and the backend reports no error; the earlier revision returns
  "Not authenticated" with no rows in the same world.
\<close>

theorem getUserPolls_throws_without_user:
  "fst (getUserPolls no_session_world) = Throws TypeError \<and>
   fst (getUserPolls_rev1 no_session_world) =
     Returns \<lparr>error = Some (lit ''Not authenticated''), polls = []\<rparr>"
  by (simp add: getUserPolls_def getUserPolls_rev1_def auth_getUser_def no_session_world_def
        signed_out_world_def signed_in_world_def)




end
